theory Spec2Isabelle
  imports Complex_Main "HOL-Library.Multiset" "HOL-Library.List_Lexorder" "HOL-Library.Char_ord"
begin

section \<open>Graph data shared by the diagram components\<close>

text \<open>
  The components keep their graphs as reactflow \<open>Node[]\<close> and \<open>Edge[]\<close> arrays.  An edge
  carries its id, its two endpoint ids and an optional label; \<open>type\<close> and \<open>animated\<close>
  are kept as well.  The constant \<open>markerEnd\<close> and \<open>style\<close> attributes of an edge are
  presentation only and are left out.  Coordinates are JavaScript numbers, modelled as reals.
\<close>

record flow_edge =
  edge_id :: string
  edge_source :: string
  edge_target :: string
  edge_label :: "string option"
  edge_type :: "string option"
  edge_animated :: "bool option"

text \<open>The pairs (source, target) of an edge list, as a relation on node ids.\<close>

definition edge_rel :: "flow_edge list \<Rightarrow> (string \<times> string) set" where
  "edge_rel edges = set (map (\<lambda>e. (edge_source e, edge_target e)) edges)"

section \<open>DiagramEditor: UPN nodes and impact analysis\<close>

text \<open>\<open>ResourceAssignment\<close> and \<open>UPNNodeData\<close> of the type declarations.  Only the
  members the editor writes are kept; \<open>impactLevel\<close> is optional and holds the string the
  code stores.\<close>

record ResourceAssignment =
  resourceId :: string
  rasci_r :: bool
  rasci_a :: bool
  rasci_s :: bool
  rasci_c :: bool
  rasci_i :: bool

record UPNNodeData =
  data_label :: string
  data_outcome :: "string option"
  data_resources :: "ResourceAssignment list"
  impactLevel :: "string option"


text \<open>A node of the editor: \<open>style\<close> only ever holds an opacity.\<close>

record upn_node =
  node_id :: string
  node_type :: string
  node_position :: "real \<times> real"
  node_data :: UPNNodeData
  node_opacity :: "real option"

text \<open>\<^verbatim>\<open>edges.filter(e => e.source === current).map(e => e.target)\<close>\<close>

definition children :: "flow_edge list \<Rightarrow> string \<Rightarrow> string list" where
  "children edges current = map edge_target (filter (\<lambda>e. edge_source e = current) edges)"

text \<open>The ids the \<open>forEach\<close> pushes on the queue:
  \<^verbatim>\<open>children.forEach(c => { if (!downstreamIds.has(c)) queue.push(c); })\<close>.
  \<open>downstreamIds\<close> does not change during the \<open>forEach\<close>.\<close>

definition pushed :: "flow_edge list \<Rightarrow> string set \<Rightarrow> string \<Rightarrow> string list" where
  "pushed edges downstreamIds current =
     filter (\<lambda>c. c \<notin> downstreamIds) (children edges current)"

text \<open>
  A bound on the work one queue entry can still cause: the entry itself plus the entries
  its unvisited children will cause once it has been visited.  It is used only as the
  measure that shows that the \<open>while\<close> loop of the impact analysis ends.
\<close>

function path_weight :: "flow_edge list \<Rightarrow> string set \<Rightarrow> string \<Rightarrow> nat" where
  "path_weight es V c =
     Suc (sum_list (map (path_weight es (insert c V)) (pushed es (insert c V) c)))"
  by pat_completeness auto

lemma children_target: "d \<in> set (children es c) \<Longrightarrow> d \<in> set (map edge_target es)"
  by (auto simp: children_def)

termination path_weight
proof (relation "measure (\<lambda>(es, V, c).
          2 * card (insert c (set (map edge_target es)) - V) + (if c \<in> V then 1 else 0))",
       goal_cases)
  case 1
  show ?case by simp
next
  case (2 es V c d)
  let ?T = "set (map edge_target es)"
  from 2 have dT: "d \<in> ?T" and dV: "d \<notin> insert c V"
    by (auto simp: pushed_def dest: children_target)
  have eq: "insert d ?T - insert c V = ?T - insert c V"
    using dT by auto
  show ?case
  proof (cases "c \<in> V")
    case True
    then have "insert c V = V" by auto
    moreover have "insert c ?T - V = ?T - V" using True by auto
    ultimately show ?thesis using True dV eq by simp
  next
    case False
    have "insert c ?T - V = insert c (?T - insert c V)" using False by auto
    moreover have "c \<notin> ?T - insert c V" by simp
    moreover have "finite (?T - insert c V)" by simp
    ultimately have "card (insert c ?T - V) = Suc (card (?T - insert c V))"
      by (simp del: set_map)
    then show ?thesis using False dV eq by (simp del: set_map)
  qed
qed

lemma sum_list_filter_mono:
  "(\<And>x. x \<in> set xs \<Longrightarrow> P x \<Longrightarrow> Q x \<and> f x \<le> (g x :: nat)) \<Longrightarrow>
   sum_list (map f (filter P xs)) \<le> sum_list (map g (filter Q xs))"
proof (induction xs)
  case Nil
  show ?case by simp
next
  case (Cons x xs)
  then have IH: "sum_list (map f (filter P xs)) \<le> sum_list (map g (filter Q xs))"
    by simp
  show ?case
  proof (cases "P x")
    case True
    with Cons.prems[of x] have "Q x" "f x \<le> g x" by simp_all
    with IH True show ?thesis by simp
  next
    case False
    with IH show ?thesis by (simp add: trans_le_add2)
  qed
qed

lemma path_weight_mono: "V \<subseteq> V' \<Longrightarrow> path_weight es V' c \<le> path_weight es V c"
proof (induction es V' c arbitrary: V rule: path_weight.induct)
  case (1 es V' c)
  have "sum_list (map (path_weight es (insert c V')) (pushed es (insert c V') c))
      \<le> sum_list (map (path_weight es (insert c V)) (pushed es (insert c V) c))"
    unfolding pushed_def
  proof (rule sum_list_filter_mono)
    fix d assume d: "d \<in> set (children es c)" "d \<notin> insert c V'"
    then have "d \<in> set (pushed es (insert c V') c)" by (simp add: pushed_def)
    moreover have "insert c V \<subseteq> insert c V'" using "1.prems" by auto
    ultimately have "path_weight es (insert c V') d \<le> path_weight es (insert c V) d"
      by (rule "1.IH")
    moreover have "d \<notin> insert c V" using d "1.prems" by auto
    ultimately show "d \<notin> insert c V \<and>
        path_weight es (insert c V') d \<le> path_weight es (insert c V) d"
      by simp
  qed
  then show ?case
    by (simp del: path_weight.simps
             add: path_weight.simps[of es V' c] path_weight.simps[of es V c])
qed

text \<open>
  The loop of \<open>runImpactAnalysis\<close>:
  \<^verbatim>\<open>
  while (queue.length > 0) {
      const current = queue.shift()!;
      downstreamIds.add(current);
      const children = edges.filter(e => e.source === current).map(e => e.target);
      children.forEach(c => { if (!downstreamIds.has(c)) queue.push(c); });
  }
  \<close>
  The state is the set \<open>downstreamIds\<close> and the queue.
\<close>

function bfs_loop :: "flow_edge list \<Rightarrow> string set \<Rightarrow> string list \<Rightarrow> string set" where
  "bfs_loop edges downstreamIds [] = downstreamIds"
| "bfs_loop edges downstreamIds (current # queue) =
     bfs_loop edges (insert current downstreamIds)
       (queue @ pushed edges (insert current downstreamIds) current)"
  by pat_completeness auto

termination bfs_loop
proof (relation "measure (\<lambda>(es, V, q). sum_list (map (path_weight es V) q))", goal_cases)
  case 1
  show ?case by simp
next
  case (2 es V c q)
  have "sum_list (map (path_weight es (insert c V)) q) \<le> sum_list (map (path_weight es V) q)"
    by (rule sum_list_mono) (simp add: path_weight_mono subset_insertI del: path_weight.simps)
  then show ?case
    by (simp del: path_weight.simps add: path_weight.simps[of es V c])
qed

text \<open>The update passed to \<open>setNodes\<close>, one node at a time.\<close>

definition annotate :: "string \<Rightarrow> string set \<Rightarrow> upn_node \<Rightarrow> upn_node" where
  "annotate startNodeId downstreamIds n =
     (if node_id n = startNodeId
      then n\<lparr>node_data := (node_data n)\<lparr>impactLevel := Some ''critical''\<rparr>,
             node_opacity := Some 1\<rparr>
      else if node_id n \<in> downstreamIds
      then n\<lparr>node_data := (node_data n)\<lparr>impactLevel := Some ''high''\<rparr>,
             node_opacity := Some 1\<rparr>
      else n\<lparr>node_data := (node_data n)\<lparr>impactLevel := Some ''none''\<rparr>,
             node_opacity := Some 0.3\<rparr>)"

text \<open>\<open>runImpactAnalysis\<close>: the edges are the component's edge state, the result is the
  new node state.\<close>

definition runImpactAnalysis :: "flow_edge list \<Rightarrow> string \<Rightarrow> upn_node list \<Rightarrow> upn_node list" where
  "runImpactAnalysis edges startNodeId nds =
     (let downstreamIds = bfs_loop edges {} [startNodeId]
      in map (annotate startNodeId downstreamIds) nds)"


text \<open>Concrete graphs: the example of the specification (\<open>1\<rightarrow>2\<rightarrow>3\<close>, \<open>1\<rightarrow>4\<close>, isolated
  \<open>5\<close>) and the initial diagram of the editor (\<open>1\<rightarrow>2\<close>, \<open>2\<rightarrow>3\<close>, \<open>2\<rightarrow>4\<close>) with
  the labels, outcomes, resources and coordinates the editor gives its four nodes.\<close>

definition mk_edge :: "string \<Rightarrow> string \<Rightarrow> string \<Rightarrow> flow_edge" where
  "mk_edge i s t = \<lparr>edge_id = i, edge_source = s, edge_target = t, edge_label = None,
                    edge_type = Some ''smoothstep'', edge_animated = None\<rparr>"

definition mk_node :: "string \<Rightarrow> string \<Rightarrow> upn_node" where
  "mk_node i l = \<lparr>node_id = i, node_type = ''upn-activity'', node_position = (0, 0),
     node_data = \<lparr>data_label = l, data_outcome = None, data_resources = [],
                  impactLevel = None\<rparr>,
     node_opacity = None\<rparr>"

definition spec_edges :: "flow_edge list" where
  "spec_edges = [mk_edge ''e1-2'' ''1'' ''2'', mk_edge ''e2-3'' ''2'' ''3'',
                 mk_edge ''e1-4'' ''1'' ''4'']"

definition spec_nodes :: "upn_node list" where
  "spec_nodes = [mk_node ''1'' ''A'', mk_node ''2'' ''B'', mk_node ''3'' ''C'',
                 mk_node ''4'' ''D'', mk_node ''5'' ''E'']"

definition editor_initialEdges :: "flow_edge list" where
  "editor_initialEdges = [mk_edge ''e1-2'' ''1'' ''2'',
                   (mk_edge ''e2-3'' ''2'' ''3'')\<lparr>edge_label := Some ''Qualified''\<rparr>,
                   (mk_edge ''e2-4'' ''2'' ''4'')\<lparr>edge_label := Some ''Not Interest''\<rparr>]"

definition assignment :: "string \<Rightarrow> bool \<Rightarrow> bool \<Rightarrow> ResourceAssignment" where
  "assignment res r a = \<lparr>resourceId = res, rasci_r = r, rasci_a = a, rasci_s = False,
                           rasci_c = False, rasci_i = False\<rparr>"

definition initial_node ::
  "string \<Rightarrow> real \<times> real \<Rightarrow> string \<Rightarrow> string \<Rightarrow> ResourceAssignment \<Rightarrow> upn_node" where
  "initial_node i p l out res =
     \<lparr>node_id = i, node_type = ''upn-activity'', node_position = p,
      node_data = \<lparr>data_label = l, data_outcome = Some out, data_resources = [res],
                   impactLevel = None\<rparr>,
      node_opacity = None\<rparr>"

definition editor_initialNodes :: "upn_node list" where
  "editor_initialNodes =
     [initial_node ''1'' (250, 0) ''New Lead Created'' ''Lead Captured''
        (assignment ''sys-sf'' True False),
      initial_node ''2'' (250, 150) ''Qualify Lead'' ''Decision Made''
        (assignment ''res-sales-rep'' True True),
      initial_node ''3'' (100, 300) ''Convert to Opportunity'' ''Opp Created''
        (assignment ''res-sales-rep'' True True),
      initial_node ''4'' (400, 300) ''Mark as Unqualified'' ''Lead Closed''
        (assignment ''res-sales-rep'' True True)]"

section \<open>Metadata types\<close>

text \<open>\<open>SField\<close>, \<open>SChildRelationship\<close>, \<open>SObject\<close> and \<open>OrgMetadata\<close> of the type
  declarations.  Members are prefixed, since several interfaces share member names.\<close>

record SField =
  f_apiName :: string
  f_label :: string
  f_type :: string
  f_description :: "string option"
  f_isCustom :: bool
  f_referenceTo :: "string list option"

record SChildRelationship =
  childSObject :: string
  cr_field :: string
  relationshipName :: string
  cascadeDelete :: bool

record SObject =
  obj_apiName :: string
  obj_label :: string
  obj_isCustom :: bool
  obj_keyPrefix :: "string option"
  obj_description :: "string option"
  obj_fields :: "SField list option"
  obj_childRelationships :: "SChildRelationship list option"
  obj_recordCount :: "nat option"

record OrgMetadata =
  orgId :: string
  orgName :: string
  instanceUrl :: string
  accessToken :: string
  org_objects :: "SObject list"

section \<open>Page layouts\<close>

record LayoutComponent =
  component_type :: string
  component_value :: string

record LayoutItem =
  item_label :: string
  layoutComponents :: "LayoutComponent list"
  placeholder :: "bool option"
  required :: "bool option"

record LayoutRow =
  layoutItems :: "LayoutItem list"

record LayoutSection =
  heading :: string
  useHeading :: bool
  layoutRows :: "LayoutRow list"
  columns :: "nat option"
  detailHeading :: "bool option"

record PageLayout =
  layout_id :: string
  layout_name :: string
  detailLayoutSections :: "LayoutSection list"

section \<open>salesforceService: records with related lists, layouts\<close>

text \<open>
  A thrown JavaScript \<open>Error\<close> with its message.  The service functions are wrappers around
  the browser's \<open>fetch\<close>; what the network answers is a parameter of the model: a function
  from the arguments of the call to either an error (the call throws) or its result.
\<close>

datatype error = Error string

text \<open>A record of the platform is a key-value object.  A row of a query result is looked
  up by relationship name only: a key that is absent or holds \<open>null\<close> is \<open>None\<close>; a
  sub-select result is an object whose \<open>records\<close> member may be missing.\<close>

type_synonym 'v sf_record = "string \<rightharpoonup> 'v"

record 'v sub_result =
  sub_records :: "'v list option"

type_synonym 'v result_row = "string \<rightharpoonup> 'v sub_result"

record 'v query_result =
  totalSize :: nat
  qr_records :: "'v result_row list option"

text \<open>
  The object \<^verbatim>\<open>{ ...baseRecord, relatedData }\<close> that \<open>fetchRecordWithRelated\<close> returns:
  the keys of the base record, with the key \<open>relatedData\<close> overwritten by the map of
  related lists.  \<open>mainRecord\<close> holds every key other than \<open>relatedData\<close>, which is how the
  caller takes the object apart (\<^verbatim>\<open>const { relatedData, ...mainRecord } = recordResult\<close>).
\<close>

record 'v record_with_related =
  mainRecord :: "'v sf_record"
  relatedData :: "string \<rightharpoonup> 'v list"

definition spread_with :: "'v sf_record \<Rightarrow> (string \<rightharpoonup> 'v list) \<Rightarrow> 'v record_with_related" where
  "spread_with baseRecord rd =
     \<lparr>mainRecord = baseRecord(''relatedData'' := None), relatedData = rd\<rparr>"

text \<open>\<^verbatim>\<open>xs.join(', ')\<close>\<close>

fun join_comma :: "string list \<Rightarrow> string" where
  "join_comma [] = ''''"
| "join_comma [x] = x"
| "join_comma (x # y # ys) = x @ '', '' @ join_comma (y # ys)"

text \<open>\<^verbatim>\<open>childRels.filter(r => r.relationshipName).slice(0, 10)\<close>: a string is truthy when
  it is not empty.\<close>

definition relationshipsToQuery :: "SChildRelationship list \<Rightarrow> SChildRelationship list" where
  "relationshipsToQuery childRels = take 10 (filter (\<lambda>r. relationshipName r \<noteq> []) childRels)"

definition subquery :: "SChildRelationship \<Rightarrow> string" where
  "subquery r = ''(SELECT Id, Name, CreatedDate FROM '' @ relationshipName r @ '' LIMIT 5)''"





definition related_query :: "string \<Rightarrow> string \<Rightarrow> SChildRelationship list \<Rightarrow> string" where
  "related_query objectName recordId rels =
     ''SELECT Id, '' @ join_comma (map subquery rels) @ '' FROM '' @ objectName
       @ '' WHERE Id = '' @ [CHR 0x27] @ recordId @ [CHR 0x27]"

text \<open>
  \<^verbatim>\<open>
  relationshipsToQuery.forEach(r => {
      if (resultRow[r.relationshipName]) {
          relatedData[r.relationshipName] = resultRow[r.relationshipName].records || [];
      }
  });
  \<close>
\<close>

fun collect_related ::
  "'v result_row \<Rightarrow> SChildRelationship list \<Rightarrow> (string \<rightharpoonup> 'v list) \<Rightarrow> (string \<rightharpoonup> 'v list)" where
  "collect_related resultRow [] rd = rd"
| "collect_related resultRow (r # rs) rd =
     collect_related resultRow rs
       (case resultRow (relationshipName r) of
          None \<Rightarrow> rd
        | Some sub \<Rightarrow>
            rd(relationshipName r \<mapsto> (case sub_records sub of Some xs \<Rightarrow> xs | None \<Rightarrow> [])))"


text \<open>\<open>fetchRecordWithRelated\<close>.  The point lookup is outside the \<open>try\<close>: its error
  propagates.  An error of the combined query is caught and logged.\<close>

definition fetchRecordWithRelated ::
  "(string \<Rightarrow> string \<Rightarrow> string \<Rightarrow> string \<Rightarrow> error + 'v sf_record) \<Rightarrow>
   (string \<Rightarrow> string \<Rightarrow> string \<Rightarrow> error + 'v query_result) \<Rightarrow>
   string \<Rightarrow> string \<Rightarrow> string \<Rightarrow> string \<Rightarrow> SChildRelationship list \<Rightarrow>
   error + 'v record_with_related" where
  "fetchRecordWithRelated fetchRecordById fetchQuery iUrl token objectName recordId childRels =
     (case fetchRecordById iUrl token objectName recordId of
        Inl e \<Rightarrow> Inl e
      | Inr baseRecord \<Rightarrow>
          (let rels = relationshipsToQuery childRels in
           if length rels = 0 then Inr (spread_with baseRecord Map.empty)
           else
             (case fetchQuery iUrl token (related_query objectName recordId rels) of
                Inl e \<Rightarrow> Inr (spread_with baseRecord Map.empty)
              | Inr queryResult \<Rightarrow>
                  (case qr_records queryResult of
                     Some (resultRow # others) \<Rightarrow>
                       Inr (spread_with baseRecord (collect_related resultRow rels Map.empty))
                   | Some [] \<Rightarrow> Inr (spread_with baseRecord Map.empty)
                   | None \<Rightarrow> Inr (spread_with baseRecord Map.empty)))))"

text \<open>
  \<open>fetchObjectLayouts\<close>.  What \<open>fetch\<close> and \<open>res.json()\<close> do is the parameter: the request
  throws, the response is not ok, the body does not parse, or it parses to an object whose
  \<open>layouts\<close> member is an array (\<open>Some\<close>) or not.
\<close>

datatype layouts_response =
  FetchThrows error | ResponseNotOk | JsonThrows error | Json "PageLayout list option"

definition fetchObjectLayouts ::
  "(string \<Rightarrow> string \<Rightarrow> string \<Rightarrow> layouts_response) \<Rightarrow>
   string \<Rightarrow> string \<Rightarrow> string \<Rightarrow> PageLayout list" where
  "fetchObjectLayouts http iUrl token objectName =
     (case http iUrl token objectName of
        FetchThrows e \<Rightarrow> []
      | ResponseNotOk \<Rightarrow> []
      | JsonThrows e \<Rightarrow> []
      | Json None \<Rightarrow> []
      | Json (Some layouts) \<Rightarrow> layouts)"

text \<open>What \<open>fetchObjectDetails\<close> resolves to.\<close>

record object_details =
  od_fields :: "SField list"
  od_childRelationships :: "SChildRelationship list"
  od_recordCount :: nat

section \<open>RecordDetailModal: default layout and record loading\<close>

text \<open>
  The comparator of \<open>createDefaultLayout\<close>.  \<open>String.prototype.localeCompare\<close> belongs to
  the JavaScript runtime and follows the locale's collation; it is the parameter \<open>lc\<close>.
\<close>

definition compareFields :: "(string \<Rightarrow> string \<Rightarrow> int) \<Rightarrow> SField \<Rightarrow> SField \<Rightarrow> int" where
  "compareFields lc a b =
     (if f_apiName a = ''Name'' then - 1
      else if f_apiName b = ''Name'' then 1
      else if f_apiName a = ''Id'' then - 1
      else if f_apiName b = ''Id'' then 1
      else lc (f_label a) (f_label b))"

text \<open>
  \<open>Array.prototype.sort\<close> with a comparator.  The language requires the sort to be stable;
  for a consistent comparator the result is then the one sorted arrangement that keeps
  the order of elements that compare equal.  Stable insertion sort computes it: an
  element goes in front of the first element it does not compare greater than.  The
  comparator of \<open>createDefaultLayout\<close> is consistent when the collation is and no two
  fields are both named \<open>Name\<close> or both named \<open>Id\<close>, as is the case for the fields of a
  described object; for other comparators the language leaves the order to the
  implementation, and the model is one such implementation.
\<close>

fun insert_by :: "('a \<Rightarrow> 'a \<Rightarrow> int) \<Rightarrow> 'a \<Rightarrow> 'a list \<Rightarrow> 'a list" where
  "insert_by cmp x [] = [x]"
| "insert_by cmp x (y # ys) = (if cmp x y \<le> 0 then x # y # ys else y # insert_by cmp x ys)"

definition array_sort :: "('a \<Rightarrow> 'a \<Rightarrow> int) \<Rightarrow> 'a list \<Rightarrow> 'a list" where
  "array_sort cmp xs = foldr (insert_by cmp) xs []"

definition field_item :: "SField \<Rightarrow> LayoutItem" where
  "field_item field =
     \<lparr>item_label = f_label field,
      layoutComponents = [\<lparr>component_type = ''Field'', component_value = f_apiName field\<rparr>],
      placeholder = None, required = None\<rparr>"

text \<open>
  The \<open>forEach\<close> over the sorted fields; \<open>n\<close> is \<open>sortedFields.length\<close>, the state is
  \<open>layoutRows\<close> and \<open>currentRow\<close>:
  \<^verbatim>\<open>
  currentRow.push(item);
  if (currentRow.length === 2 || index === sortedFields.length - 1) {
      layoutRows.push({ layoutItems: currentRow });
      currentRow = [];
  }
  \<close>
\<close>

fun rows_loop ::
  "nat \<Rightarrow> nat \<Rightarrow> SField list \<Rightarrow> LayoutRow list \<Rightarrow> LayoutItem list \<Rightarrow> LayoutRow list" where
  "rows_loop n index [] rows currentRow = rows"
| "rows_loop n index (field # rest) rows currentRow =
     (let pushedRow = currentRow @ [field_item field] in
      if length pushedRow = 2 \<or> int index = int n - 1
      then rows_loop n (index + 1) rest (rows @ [\<lparr>layoutItems = pushedRow\<rparr>]) []
      else rows_loop n (index + 1) rest rows pushedRow)"

definition sortedFields :: "(string \<Rightarrow> string \<Rightarrow> int) \<Rightarrow> SField list \<Rightarrow> SField list" where
  "sortedFields lc fieldList = array_sort (compareFields lc) fieldList"

definition createDefaultLayout ::
  "(string \<Rightarrow> string \<Rightarrow> int) \<Rightarrow> string \<Rightarrow> SField list \<Rightarrow> PageLayout" where
  "createDefaultLayout lc objectType fieldList =
     (let sorted = sortedFields lc fieldList;
          rows = rows_loop (length sorted) 0 sorted [] []
      in \<lparr>layout_id = ''system-default'',
          layout_name = ''System Default Layout'',
          detailLayoutSections =
            [\<lparr>heading = objectType @ '' Details'', useHeading = True,
              layoutRows = rows, columns = Some 2, detailHeading = None\<rparr>]\<rparr>)"

text \<open>The rows of the one section of the default layout.\<close>

definition default_rows :: "(string \<Rightarrow> string \<Rightarrow> int) \<Rightarrow> string \<Rightarrow> SField list \<Rightarrow> LayoutRow list" where
  "default_rows lc objectType fieldList =
     concat (map layoutRows (detailLayoutSections (createDefaultLayout lc objectType fieldList)))"

text \<open>Fields that are neither \<open>Name\<close> nor \<open>Id\<close>.\<close>

definition plain :: "SField \<Rightarrow> bool" where
  "plain f \<longleftrightarrow> f_apiName f \<noteq> ''Name'' \<and> f_apiName f \<noteq> ''Id''"

text \<open>Grouping a list two by two, the last group holding one item when the length is odd:
  what the row loop is shown to compute.\<close>

fun pairs :: "LayoutItem list \<Rightarrow> LayoutRow list" where
  "pairs [] = []"
| "pairs [x] = [\<lparr>layoutItems = [x]\<rparr>]"
| "pairs (x # y # zs) = \<lparr>layoutItems = [x, y]\<rparr> # pairs zs"

text \<open>A concrete collation for the examples: comparison of the strings' code units.\<close>

definition codepoint_compare :: "string \<Rightarrow> string \<Rightarrow> int" where
  "codepoint_compare a b = (if a < b then - 1 else if a = b then 0 else 1)"

text \<open>An example field list.\<close>

definition mk_field :: "string \<Rightarrow> string \<Rightarrow> SField" where
  "mk_field a l = \<lparr>f_apiName = a, f_label = l, f_type = ''string'', f_description = None,
                   f_isCustom = False, f_referenceTo = None\<rparr>"

definition example_fields :: "SField list" where
  "example_fields = [mk_field ''Zip__c'' ''Zip'', mk_field ''Id'' ''Record ID'',
                     mk_field ''Area__c'' ''Area'', mk_field ''Name'' ''Name'',
                     mk_field ''Code__c'' ''Code'']"

text \<open>The state cells of the modal that record loading writes.\<close>

record 'v modal_state =
  st_data :: "'v sf_record option"
  st_relatedData :: "(string \<rightharpoonup> 'v list) option"
  st_layouts :: "PageLayout list"
  st_selectedLayoutId :: string
  st_loading :: bool
  st_layoutLoading :: bool
  st_error :: "string option"

text \<open>The outer \<open>catch\<close>:
  \<^verbatim>\<open>setError(err.message || "Failed to load record details")\<close>.\<close>

definition load_failed :: "'v modal_state \<Rightarrow> error \<Rightarrow> 'v modal_state" where
  "load_failed st err =
     (case err of Error message \<Rightarrow>
        st\<lparr>st_error := Some (if message \<noteq> [] then message else ''Failed to load record details''),
           st_loading := False, st_layoutLoading := False\<rparr>)"

definition use_default_layout ::
  "(string \<Rightarrow> string \<Rightarrow> int) \<Rightarrow> string \<Rightarrow> object_details \<Rightarrow> 'v modal_state \<Rightarrow> 'v modal_state" where
  "use_default_layout lc objectType objDetails st =
     (let defaultLayout = createDefaultLayout lc objectType (od_fields objDetails)
      in st\<lparr>st_layouts := [defaultLayout], st_selectedLayoutId := layout_id defaultLayout\<rparr>)"

text \<open>
  \<open>loadRecordAndMetadata\<close>.  The three imported service functions are parameters; the
  layout call may throw as far as this function knows, so its outcome is a sum as well.
  Every statement after the first two state writes is inside a \<open>try\<close> whose \<open>catch\<close>
  writes the error cell: the function returns a state on every path.
\<close>

definition loadRecordAndMetadata ::
  "(string \<Rightarrow> string \<Rightarrow> int) \<Rightarrow>
   (string \<Rightarrow> string \<Rightarrow> string \<Rightarrow> error + object_details) \<Rightarrow>
   (string \<Rightarrow> string \<Rightarrow> string \<Rightarrow> string \<Rightarrow> error + 'v sf_record) \<Rightarrow>
   (string \<Rightarrow> string \<Rightarrow> string \<Rightarrow> error + 'v query_result) \<Rightarrow>
   (string \<Rightarrow> string \<Rightarrow> string \<Rightarrow> error + PageLayout list) \<Rightarrow>
   OrgMetadata \<Rightarrow> string \<Rightarrow> string \<Rightarrow> 'v modal_state \<Rightarrow> 'v modal_state" where
  "loadRecordAndMetadata lc fetchObjectDetails fetchRecordById fetchQuery layoutService
       orgMetadata objectType recordId st0 =
     (let st1 = st0\<lparr>st_loading := True, st_error := None\<rparr> in
      case fetchObjectDetails (instanceUrl orgMetadata) (accessToken orgMetadata) objectType of
        Inl err \<Rightarrow> load_failed st1 err
      | Inr objDetails \<Rightarrow>
          (case fetchRecordWithRelated fetchRecordById fetchQuery
                  (instanceUrl orgMetadata) (accessToken orgMetadata) objectType recordId
                  (od_childRelationships objDetails) of
             Inl err \<Rightarrow> load_failed st1 err
           | Inr recordResult \<Rightarrow>
               (let st2 = st1\<lparr>st_data := Some (mainRecord recordResult),
                              st_relatedData := Some (relatedData recordResult),
                              st_loading := False, st_layoutLoading := True\<rparr>;
                    st3 =
                      (case layoutService (instanceUrl orgMetadata) (accessToken orgMetadata)
                              objectType of
                         Inr [] \<Rightarrow> use_default_layout lc objectType objDetails st2
                       | Inr (layout0 # others) \<Rightarrow>
                           st2\<lparr>st_layouts := layout0 # others,
                               st_selectedLayoutId := layout_id layout0\<rparr>
                       | Inl layoutError \<Rightarrow> use_default_layout lc objectType objDetails st2)
                in st3\<lparr>st_layoutLoading := False\<rparr>)))"

text \<open>The initial state of the modal's cells.\<close>

definition initial_modal_state :: "'v modal_state" where
  "initial_modal_state =
     \<lparr>st_data = None, st_relatedData = None, st_layouts = [], st_selectedLayoutId = '''',
      st_loading = True, st_layoutLoading = True, st_error = None\<rparr>"

section \<open>Example inputs for record loading\<close>

text \<open>An example org with one custom object whose label differs from its API name, and
  example answers of the network.\<close>

definition invoice_object :: SObject where
  "invoice_object = \<lparr>obj_apiName = ''Invoice__c'', obj_label = ''Invoice'', obj_isCustom = True,
     obj_keyPrefix = Some ''a01'', obj_description = None, obj_fields = Some [],
     obj_childRelationships = None, obj_recordCount = Some 0\<rparr>"

definition example_org :: OrgMetadata where
  "example_org = \<lparr>orgId = ''00D000000000001'', orgName = ''Example'',
     instanceUrl = ''https://example.my.salesforce.com'', accessToken = ''token'',
     org_objects = [invoice_object]\<rparr>"

definition example_childRels :: "SChildRelationship list" where
  "example_childRels =
     [\<lparr>childSObject = ''Payment__c'', cr_field = ''Invoice__c'',
       relationshipName = ''Payments__r'', cascadeDelete = True\<rparr>,
      \<lparr>childSObject = ''Note__c'', cr_field = ''Invoice__c'',
       relationshipName = '''', cascadeDelete = False\<rparr>]"

definition describe_ok :: "string \<Rightarrow> string \<Rightarrow> string \<Rightarrow> error + object_details" where
  "describe_ok iUrl token objectName =
     (if objectName = ''Invoice__c''
      then Inr \<lparr>od_fields = example_fields, od_childRelationships = example_childRels,
                od_recordCount = 1\<rparr>
      else Inl (Error (''Failed to describe '' @ objectName)))"

definition byId_ok :: "string \<Rightarrow> string \<Rightarrow> string \<Rightarrow> string \<Rightarrow> error + string sf_record" where
  "byId_ok iUrl token objectName recordId =
     Inr (map_of [(''Id'', recordId), (''Name'', ''INV-1'')])"

definition query_fails :: "string \<Rightarrow> string \<Rightarrow> string \<Rightarrow> error + string query_result" where
  "query_fails iUrl token q = Inl (Error ''Query Failed'')"


definition http_down :: "string \<Rightarrow> string \<Rightarrow> string \<Rightarrow> layouts_response" where
  "http_down iUrl token objectName = FetchThrows (Error ''Failed to fetch'')"

section \<open>Graph layout through dagre\<close>

text \<open>
  dagre is an external library.  What the components hand to it is the graph setting
  (\<open>rankdir\<close> and, in the editor, \<open>nodesep\<close> and \<open>ranksep\<close>), the \<open>setNode\<close> calls (id, width,
  height) and the \<open>setEdge\<close> calls (source, target), in the order they are made.  What it
  gives back is read with \<^verbatim>\<open>dagreGraph.node(id)\<close>.  The layout algorithm itself is the
  parameter \<open>layout\<close> of the functions below: a function from what dagre was handed, and a
  node id, to the anchor point dagre computed for that node.
\<close>

record dagre_graph =
  rankdir :: string
  nodesep :: "real option"
  ranksep :: "real option"
  dagre_nodes :: "(string \<times> real \<times> real) list"
  dagre_edges :: "(string \<times> string) list"

type_synonym dagre_layout = "dagre_graph \<Rightarrow> string \<Rightarrow> real \<times> real"

text \<open>
  \<open>dagre.layout\<close> can also throw.  In the process diagrams the node ids come from the
  answer of the generative service and can be anything, so there the parameter is a
  function to either the error thrown or the anchor points.  In the dictionary the node
  ids are the API names of a described object and of its reference targets, and the
  layout is taken to return.
\<close>

type_synonym dagre_run = "dagre_graph \<Rightarrow> error + (string \<Rightarrow> real \<times> real)"

text \<open>A node of the process diagram and of the dependency graph.  Its CSS \<open>style\<close> is
  presentation only and is left out.\<close>

record flow_node =
  fn_id :: string
  fn_type :: "string option"
  fn_label :: string
  fn_position :: "real \<times> real"
  targetPosition :: "string option"
  sourcePosition :: "string option"

subsection \<open>AutoDiagram\<close>

record DiagramNode =
  dn_id :: string
  dn_label :: string
  dn_type :: string
  dn_x :: "real option"
  dn_y :: "real option"

record DiagramEdge =
  de_id :: string
  de_source :: string
  de_target :: string
  de_label :: "string option"

text \<open>A process diagram is typed, but the value is the parsed answer of the generative
  service, accepted when its \<open>nodes\<close> array is not empty: the \<open>edges\<close> member can be
  missing.\<close>

record ProcessDiagram =
  pd_id :: string
  pd_title :: string
  pd_description :: string
  pd_nodes :: "DiagramNode list"
  pd_edges :: "DiagramEdge list option"

datatype DiagramStyle = corporate | modern | blueprint

text \<open>\<open>getLayoutedElements\<close> of AutoDiagram: \<open>nodeWidth = 180\<close>, \<open>nodeHeight = 50\<close>, the
  direction defaults to \<open>TB\<close>.  \<open>dagreGraph_AutoDiagram\<close> is the graph handed to dagre.  An
  error of \<open>dagre.layout\<close> is not caught.\<close>

definition dagreGraph_AutoDiagram ::
  "flow_node list \<Rightarrow> flow_edge list \<Rightarrow> string option \<Rightarrow> dagre_graph" where
  "dagreGraph_AutoDiagram nodes edges direction =
     \<lparr>rankdir = (case direction of None \<Rightarrow> ''TB'' | Some d \<Rightarrow> d),
      nodesep = None, ranksep = None,
      dagre_nodes = map (\<lambda>node. (fn_id node, 180, 50)) nodes,
      dagre_edges = map (\<lambda>edge. (edge_source edge, edge_target edge)) edges\<rparr>"

definition getLayoutedElements_AutoDiagram ::
  "dagre_run \<Rightarrow> flow_node list \<Rightarrow> flow_edge list \<Rightarrow> string option \<Rightarrow>
   error + flow_node list \<times> flow_edge list" where
  "getLayoutedElements_AutoDiagram layout nodes edges direction =
     (case layout (dagreGraph_AutoDiagram nodes edges direction) of
        Inl e \<Rightarrow> Inl e
      | Inr nodeWithPosition \<Rightarrow>
          Inr (map (\<lambda>node. case nodeWithPosition (fn_id node) of (x, y) \<Rightarrow>
                      node\<lparr>targetPosition := Some ''top'', sourcePosition := Some ''bottom'',
                           fn_position := (x - 180 / 2, y - 50 / 2)\<rparr>) nodes,
               edges))"

text \<open>The \<open>type\<close> and \<open>animated\<close> members of \<open>getEdgeOptions\<close>.\<close>

definition getEdgeOptions :: "DiagramStyle \<Rightarrow> string \<times> bool" where
  "getEdgeOptions style =
     (if style = modern then (''default'', True)
      else if style = blueprint then (''straight'', False)
      else (''smoothstep'', True))"

definition flowNodes :: "ProcessDiagram \<Rightarrow> flow_node list" where
  "flowNodes diagramData =
     map (\<lambda>n. \<lparr>fn_id = dn_id n,
                fn_type = Some (if dn_type n = ''start'' then ''input''
                                else if dn_type n = ''end'' then ''output'' else ''default''),
                fn_label = dn_label n, fn_position = (0, 0),
                targetPosition = None, sourcePosition = None\<rparr>) (pd_nodes diagramData)"

definition flowEdges :: "DiagramEdge list \<Rightarrow> DiagramStyle \<Rightarrow> flow_edge list" where
  "flowEdges diagramEdges currentStyle =
     map (\<lambda>e. \<lparr>edge_id = de_id e, edge_source = de_source e, edge_target = de_target e,
                edge_label = de_label e,
                edge_type = Some (fst (getEdgeOptions currentStyle)),
                edge_animated = Some (snd (getEdgeOptions currentStyle))\<rparr>) diagramEdges"

text \<open>
  \<open>regenerateGraph\<close>: the state is the pair of the node and edge cells.  The function has
  no \<open>try\<close>: \<^verbatim>\<open>diagramData.edges.map\<close> on a diagram without \<open>edges\<close> throws a
  \<open>TypeError\<close>, and an error of \<open>dagre.layout\<close> propagates; in both cases no cell is
  written.
\<close>

definition regenerateGraph ::
  "dagre_run \<Rightarrow> ProcessDiagram option \<Rightarrow> DiagramStyle \<Rightarrow>
   flow_node list \<times> flow_edge list \<Rightarrow> error + flow_node list \<times> flow_edge list" where
  "regenerateGraph layout diagramData currentStyle st =
     (case diagramData of
        None \<Rightarrow> Inr st
      | Some d \<Rightarrow>
          (case pd_edges d of
             None \<Rightarrow> Inl (Error ''Cannot read properties of undefined (reading map)'')
           | Some diagramEdges \<Rightarrow>
               getLayoutedElements_AutoDiagram layout (flowNodes d)
                 (flowEdges diagramEdges currentStyle) None))"

subsection \<open>MetadataDictionary: the dependency graph\<close>






subsection \<open>DiagramEditor: diagrams from the generative service\<close>

text \<open>What the generative service returns is parsed JSON of no fixed shape; the members the
  editor reads are optional.\<close>

record raw_node_data =
  rnd_label :: "string option"
  rnd_outcome :: "string option"
  rnd_resources :: "ResourceAssignment list option"

record raw_node =
  rn_id :: string
  rn_label :: "string option"
  rn_data :: "raw_node_data option"

record raw_edge =
  re_id :: "string option"
  re_source :: string
  re_target :: string

record raw_diagram =
  rd_nodes :: "raw_node list option"
  rd_edges :: "raw_edge list option"

text \<open>\<^verbatim>\<open>a || b\<close> on an optional string: a missing or empty string is falsy.\<close>

definition or_else :: "string option \<Rightarrow> string \<Rightarrow> string" where
  "or_else a b = (case a of None \<Rightarrow> b | Some s \<Rightarrow> if s = [] then b else s)"

definition newNode :: "raw_node \<Rightarrow> upn_node" where
  "newNode n =
     \<lparr>node_id = rn_id n, node_type = ''upn-activity'', node_position = (0, 0),
      node_data =
        \<lparr>data_label = or_else (case rn_data n of None \<Rightarrow> None | Some d \<Rightarrow> rnd_label d)
                          (or_else (rn_label n) ''Activity''),
         data_outcome = Some (or_else (case rn_data n of None \<Rightarrow> None | Some d \<Rightarrow> rnd_outcome d)
                          ''Done''),
         data_resources = (case rn_data n of None \<Rightarrow> []
                           | Some d \<Rightarrow> (case rnd_resources d of None \<Rightarrow> [] | Some rs \<Rightarrow> rs)),
         impactLevel = None\<rparr>,
      node_opacity = None\<rparr>"

definition newEdge :: "raw_edge \<Rightarrow> flow_edge" where
  "newEdge e =
     \<lparr>edge_id = or_else (re_id e) (''e-'' @ re_source e @ ''-'' @ re_target e),
      edge_source = re_source e, edge_target = re_target e, edge_label = None,
      edge_type = Some ''smoothstep'', edge_animated = None\<rparr>"

text \<open>\<open>getLayoutedElements\<close> of the editor: top to bottom, boxes of 200 by 100.
  \<open>dagreGraph_DiagramEditor\<close> is the graph handed to dagre.\<close>

definition dagreGraph_DiagramEditor :: "upn_node list \<Rightarrow> flow_edge list \<Rightarrow> dagre_graph" where
  "dagreGraph_DiagramEditor nodes edges =
     \<lparr>rankdir = ''TB'', nodesep = Some 50, ranksep = Some 80,
      dagre_nodes = map (\<lambda>node. (node_id node, 200, 100)) nodes,
      dagre_edges = map (\<lambda>edge. (edge_source edge, edge_target edge)) edges\<rparr>"

definition getLayoutedElements_DiagramEditor ::
  "dagre_run \<Rightarrow> upn_node list \<Rightarrow> flow_edge list \<Rightarrow> error + upn_node list \<times> flow_edge list" where
  "getLayoutedElements_DiagramEditor layout nodes edges =
     (case layout (dagreGraph_DiagramEditor nodes edges) of
        Inl e \<Rightarrow> Inl e
      | Inr nodeWithPosition \<Rightarrow>
          Inr (map (\<lambda>node. case nodeWithPosition (node_id node) of (x, y) \<Rightarrow>
                      node\<lparr>node_position := (x - 100, y - 50)\<rparr>) nodes,
               edges))"

text \<open>
  The part of \<open>handleGenerate\<close> that turns the service's answer into the new node and edge
  state:
  \<^verbatim>\<open>if (rawData && rawData.nodes) { ... setNodes(layouted.nodes); setEdges(layouted.edges); }\<close>
  It sits inside the \<open>try\<close> of \<open>handleGenerate\<close>: when the layout throws, the \<open>catch\<close> logs
  and alerts, and neither cell is written.
\<close>

definition handleGenerate_graph ::
  "dagre_run \<Rightarrow> raw_diagram option \<Rightarrow> upn_node list \<times> flow_edge list \<Rightarrow>
   upn_node list \<times> flow_edge list" where
  "handleGenerate_graph layout rawData st =
     (case rawData of
        None \<Rightarrow> st
      | Some raw \<Rightarrow>
          (case rd_nodes raw of
             None \<Rightarrow> st
           | Some rawNodes \<Rightarrow>
               (case getLayoutedElements_DiagramEditor layout (map newNode rawNodes)
                       (case rd_edges raw of None \<Rightarrow> []
                        | Some rawEdges \<Rightarrow> map newEdge rawEdges) of
                  Inl e \<Rightarrow> st
                | Inr layouted \<Rightarrow> layouted)))"

subsection \<open>Example graphs\<close>

text \<open>A stand-in for dagre in the examples: the nodes are stacked in the order in which
  they were set, 100 apart.\<close>

definition stack_layout :: dagre_layout where
  "stack_layout g i = (0, 100 * real (length (takeWhile (\<lambda>(j, w, h). j \<noteq> i) (dagre_nodes g))))"

text \<open>The same stand-in as a layout that can throw: it throws when a node has the empty
  string as its id, and stacks the nodes otherwise.\<close>

definition stack_run :: dagre_run where
  "stack_run g =
     (if [] \<in> set (map fst (dagre_nodes g)) then Inl (Error ''TypeError'')
      else Inr (stack_layout g))"

text \<open>An answer of the generative service with one node \<open>a\<close> and an edge from \<open>a\<close> to a node
  \<open>x\<close> that is not among the nodes; the same as a process diagram.\<close>

definition dangling_raw :: raw_diagram where
  "dangling_raw =
     \<lparr>rd_nodes = Some [\<lparr>rn_id = ''a'', rn_label = Some ''Start'', rn_data = None\<rparr>],
      rd_edges = Some [\<lparr>re_id = None, re_source = ''a'', re_target = ''x''\<rparr>]\<rparr>"

definition dangling_diagram :: ProcessDiagram where
  "dangling_diagram =
     \<lparr>pd_id = ''p1'', pd_title = ''Example'', pd_description = '''',
      pd_nodes = [\<lparr>dn_id = ''a'', dn_label = ''Start'', dn_type = ''start'',
                   dn_x = None, dn_y = None\<rparr>],
      pd_edges = Some [\<lparr>de_id = ''e1'', de_source = ''a'', de_target = ''x'',
                        de_label = None\<rparr>]\<rparr>"

text \<open>Further answers of the generative service: two steps joined by an edge; a node whose
  id is the empty string; a diagram without an \<open>edges\<close> member.\<close>

definition two_step_nodes :: "raw_node list" where
  "two_step_nodes =
     [\<lparr>rn_id = ''n1'', rn_label = None,
       rn_data = Some \<lparr>rnd_label = Some ''Validate Account'',
                         rnd_outcome = Some ''Account Verified'', rnd_resources = None\<rparr>\<rparr>,
      \<lparr>rn_id = ''n2'', rn_label = Some ''Create Order'', rn_data = None\<rparr>]"

definition two_step_edges :: "raw_edge list" where
  "two_step_edges = [\<lparr>re_id = None, re_source = ''n1'', re_target = ''n2''\<rparr>]"

definition empty_id_nodes :: "raw_node list" where
  "empty_id_nodes = [\<lparr>rn_id = [], rn_label = Some ''Start'', rn_data = None\<rparr>]"

definition edgeless_diagram :: ProcessDiagram where
  "edgeless_diagram =
     \<lparr>pd_id = ''p2'', pd_title = ''Example'', pd_description = [],
      pd_nodes = [\<lparr>dn_id = ''a'', dn_label = ''Start'', dn_type = ''start'',
                   dn_x = None, dn_y = None\<rparr>],
      pd_edges = None\<rparr>"



section \<open>Impact analysis: what the traversal computes\<close>

lemma children_edge_rel: "d \<in> set (children es c) \<longleftrightarrow> (c, d) \<in> edge_rel es"
  by (auto simp: children_def edge_rel_def)

lemma bfs_loop_sound: "bfs_loop es V Q \<subseteq> V \<union> (edge_rel es)\<^sup>* `` set Q"
proof (induction es V Q rule: bfs_loop.induct)
  case (1 es V)
  show ?case by simp
next
  case (2 es V c q)
  have "(edge_rel es)\<^sup>* `` set (pushed es (insert c V) c) \<subseteq> (edge_rel es)\<^sup>* `` {c}"
    by (auto simp: pushed_def children_edge_rel intro: converse_rtrancl_into_rtrancl)
  moreover have "c \<in> (edge_rel es)\<^sup>* `` {c}" by simp
  ultimately have "insert c V \<union> (edge_rel es)\<^sup>* `` set (q @ pushed es (insert c V) c)
          \<subseteq> V \<union> (edge_rel es)\<^sup>* `` set (c # q)"
    by (simp only: set_append set_simps Image_Un) blast
  then have "bfs_loop es (insert c V) (q @ pushed es (insert c V) c)
          \<subseteq> V \<union> (edge_rel es)\<^sup>* `` set (c # q)"
    using "2.IH" by (rule order_trans[rotated])
  then show ?case by (simp only: bfs_loop.simps)
qed

lemma bfs_loop_closed:
  "edge_rel es `` V \<subseteq> V \<union> set Q \<Longrightarrow>
   V \<union> set Q \<subseteq> bfs_loop es V Q \<and> edge_rel es `` bfs_loop es V Q \<subseteq> bfs_loop es V Q"
proof (induction es V Q rule: bfs_loop.induct)
  case (1 es V)
  then show ?case by simp
next
  case (2 es V c q)
  let ?V = "insert c V"
  let ?Q = "q @ pushed es ?V c"
  have "edge_rel es `` ?V \<subseteq> ?V \<union> set ?Q"
    using "2.prems" by (auto simp: pushed_def children_edge_rel)
  then have "?V \<union> set ?Q \<subseteq> bfs_loop es ?V ?Q \<and>
             edge_rel es `` bfs_loop es ?V ?Q \<subseteq> bfs_loop es ?V ?Q"
    by (rule "2.IH")
  then show ?case by auto
qed

lemma bfs_loop_reachable: "bfs_loop es {} [s] = (edge_rel es)\<^sup>* `` {s}"
proof
  show "bfs_loop es {} [s] \<subseteq> (edge_rel es)\<^sup>* `` {s}"
    using bfs_loop_sound[of es "{}" "[s]"] by simp
next
  have cl: "{} \<union> set [s] \<subseteq> bfs_loop es {} [s] \<and>
            edge_rel es `` bfs_loop es {} [s] \<subseteq> bfs_loop es {} [s]"
    by (rule bfs_loop_closed) simp
  show "(edge_rel es)\<^sup>* `` {s} \<subseteq> bfs_loop es {} [s]"
  proof
    fix v assume "v \<in> (edge_rel es)\<^sup>* `` {s}"
    then have "(s, v) \<in> (edge_rel es)\<^sup>*" by simp
    then show "v \<in> bfs_loop es {} [s]"
    proof (induction rule: rtrancl_induct)
      case base
      show ?case using cl by simp
    next
      case (step y z)
      then show ?case using cl by blast
    qed
  qed
qed

lemma impactLevel_annotate:
  "impactLevel (node_data (annotate s D n)) =
     Some (if node_id n = s then ''critical'' else if node_id n \<in> D then ''high'' else ''none'')"
  by (simp add: annotate_def)

lemma node_id_annotate: "node_id (annotate s D n) = node_id n"
  by (simp add: annotate_def)

text \<open>
  Claim C1.  For every edge list, start node and node list, the loop of the impact analysis
  returns exactly the ids reachable from the start node along edges (source to target),
  the start node included; the start node is annotated \<open>critical\<close>, every other
  reachable node \<open>high\<close>, every other node \<open>none\<close>; and an id is pushed on the queue
  only when it is not in the visited set.  The traversal is a total function: it ends on
  every graph, cyclic or not.
\<close>

theorem runImpactAnalysis_tiers:
  "map node_id (runImpactAnalysis edges startNodeId nds) = map node_id nds
   \<and> bfs_loop edges {} [startNodeId] = (edge_rel edges)\<^sup>* `` {startNodeId}
   \<and> startNodeId \<in> bfs_loop edges {} [startNodeId]
   \<and> (\<forall>i<length nds.
         impactLevel (node_data (runImpactAnalysis edges startNodeId nds ! i)) =
           Some (if node_id (nds ! i) = startNodeId then ''critical''
                 else if (startNodeId, node_id (nds ! i)) \<in> (edge_rel edges)\<^sup>* then ''high''
                 else ''none''))
   \<and> (\<forall>downstreamIds current. \<forall>c \<in> set (pushed edges downstreamIds current).
         c \<notin> downstreamIds)"
proof (intro conjI)
  show "map node_id (runImpactAnalysis edges startNodeId nds) = map node_id nds"
    by (simp add: runImpactAnalysis_def node_id_annotate)
  show "bfs_loop edges {} [startNodeId] = (edge_rel edges)\<^sup>* `` {startNodeId}"
    by (rule bfs_loop_reachable)
  show "startNodeId \<in> bfs_loop edges {} [startNodeId]"
    by (simp only: bfs_loop_reachable) simp
  show "\<forall>i<length nds.
         impactLevel (node_data (runImpactAnalysis edges startNodeId nds ! i)) =
           Some (if node_id (nds ! i) = startNodeId then ''critical''
                 else if (startNodeId, node_id (nds ! i)) \<in> (edge_rel edges)\<^sup>* then ''high''
                 else ''none'')"
    by (simp add: runImpactAnalysis_def impactLevel_annotate bfs_loop_reachable
             del: bfs_loop.simps)
  show "\<forall>downstreamIds current. \<forall>c \<in> set (pushed edges downstreamIds current).
         c \<notin> downstreamIds"
    by (simp add: pushed_def)
qed

text \<open>The example of the specification: \<open>1\<rightarrow>2\<rightarrow>3\<close>, \<open>1\<rightarrow>4\<close>, start \<open>1\<close>, isolated
  node \<open>5\<close>.\<close>

theorem runImpactAnalysis_tiers_witness:
  "map (\<lambda>n. (node_id n, impactLevel (node_data n)))
       (runImpactAnalysis spec_edges ''1'' spec_nodes)
   = [(''1'', Some ''critical''), (''2'', Some ''high''), (''3'', Some ''high''),
      (''4'', Some ''high''), (''5'', Some ''none'')]
   \<and> (''1'', ''3'') \<in> (edge_rel spec_edges)\<^sup>*
   \<and> (''1'', ''5'') \<notin> (edge_rel spec_edges)\<^sup>*"
proof -
  have len: "length spec_nodes = 5" by (simp add: spec_nodes_def)
  have ids: "node_id (spec_nodes ! 2) = ''3''" "node_id (spec_nodes ! 4) = ''5''"
    by (simp_all add: spec_nodes_def mk_node_def)
  have lv: "map (\<lambda>n. (node_id n, impactLevel (node_data n)))
       (runImpactAnalysis spec_edges ''1'' spec_nodes)
   = [(''1'', Some ''critical''), (''2'', Some ''high''), (''3'', Some ''high''),
      (''4'', Some ''high''), (''5'', Some ''none'')]"
    by (simp add: runImpactAnalysis_def spec_edges_def spec_nodes_def mk_edge_def mk_node_def
       annotate_def pushed_def children_def)
  have l: "length (runImpactAnalysis spec_edges ''1'' spec_nodes) = 5"
    by (simp add: runImpactAnalysis_def len)
  from lv have "map (\<lambda>n. (node_id n, impactLevel (node_data n)))
       (runImpactAnalysis spec_edges ''1'' spec_nodes) ! 2 = (''3'', Some ''high'')"
     and "map (\<lambda>n. (node_id n, impactLevel (node_data n)))
       (runImpactAnalysis spec_edges ''1'' spec_nodes) ! 4 = (''5'', Some ''none'')"
    by simp_all
  then have l3: "impactLevel (node_data (runImpactAnalysis spec_edges ''1'' spec_nodes ! 2)) = Some ''high''"
    and l5: "impactLevel (node_data (runImpactAnalysis spec_edges ''1'' spec_nodes ! 4)) = Some ''none''"
    using l by simp_all
  note t = runImpactAnalysis_tiers[of spec_edges "''1''" spec_nodes,
             THEN conjunct2, THEN conjunct2, THEN conjunct2, THEN conjunct1, rule_format]
  have "(2::nat) < length spec_nodes" "(4::nat) < length spec_nodes" by (simp_all add: len)
  from t[OF this(1)] t[OF this(2)] l3 l5 ids
  have "(''1'', ''3'') \<in> (edge_rel spec_edges)\<^sup>*" "(''1'', ''5'') \<notin> (edge_rel spec_edges)\<^sup>*"
    by (simp_all split: if_splits)
  with lv show ?thesis by simp
qed



section \<open>The default layout: order of the fields and rows\<close>


lemma insert_by_mset: "mset (insert_by cmp x ys) = add_mset x (mset ys)"
  by (induction ys) auto

lemma array_sort_mset: "mset (array_sort cmp xs) = mset xs"
  by (induction xs) (auto simp: array_sort_def insert_by_mset)

lemma insert_by_set: "set (insert_by cmp x ys) = insert x (set ys)"
  by (induction ys) auto

lemma insert_by_sorted:
  assumes total: "\<And>a b. cmp a b \<le> 0 \<or> cmp b a \<le> 0"
    and trans: "\<And>a b c. cmp a b \<le> 0 \<Longrightarrow> cmp b c \<le> 0 \<Longrightarrow> cmp a c \<le> 0"
  shows "sorted_wrt (\<lambda>a b. cmp a b \<le> 0) ys \<Longrightarrow> sorted_wrt (\<lambda>a b. cmp a b \<le> 0) (insert_by cmp x ys)"
proof (induction ys)
  case Nil
  show ?case by simp
next
  case (Cons y ys)
  show ?case
  proof (cases "cmp x y \<le> 0")
    case True
    then have "\<forall>z\<in>set ys. cmp x z \<le> 0" using Cons.prems trans by auto
    with True Cons.prems show ?thesis by simp
  next
    case False
    then have "cmp y x \<le> 0" using total[of x y] by simp
    with False Cons show ?thesis by (auto simp: insert_by_set)
  qed
qed

lemma array_sort_sorted:
  assumes total: "\<And>a b. cmp a b \<le> 0 \<or> cmp b a \<le> 0"
    and trans: "\<And>a b c. cmp a b \<le> 0 \<Longrightarrow> cmp b c \<le> 0 \<Longrightarrow> cmp a c \<le> 0"
  shows "sorted_wrt (\<lambda>a b. cmp a b \<le> 0) (array_sort cmp xs)"
proof (induction xs)
  case Nil
  show ?case by (simp add: array_sort_def)
next
  case (Cons x xs)
  have "array_sort cmp (x # xs) = insert_by cmp x (array_sort cmp xs)"
    by (simp add: array_sort_def)
  with Cons insert_by_sorted[of cmp, OF total trans] show ?case by simp
qed


lemma insert_by_Name:
  "f_apiName x = ''Name'' \<Longrightarrow> insert_by (compareFields lc) x ys = x # ys"
  by (cases ys) (simp_all add: compareFields_def)

lemma insert_by_pass_Names:
  "f_apiName x \<noteq> ''Name'' \<Longrightarrow> \<forall>n\<in>set ns. f_apiName n = ''Name'' \<Longrightarrow>
   insert_by (compareFields lc) x (ns @ ys) = ns @ insert_by (compareFields lc) x ys"
  by (induction ns) (simp_all add: compareFields_def)

lemma insert_by_Id:
  "f_apiName x = ''Id'' \<Longrightarrow> \<forall>z\<in>set zs. f_apiName z \<noteq> ''Name'' \<Longrightarrow>
   insert_by (compareFields lc) x zs = x # zs"
  by (cases zs) (simp_all add: compareFields_def)

lemma insert_by_pass_Ids:
  "f_apiName x \<noteq> ''Name'' \<Longrightarrow> f_apiName x \<noteq> ''Id'' \<Longrightarrow> \<forall>i\<in>set ids. f_apiName i = ''Id'' \<Longrightarrow>
   insert_by (compareFields lc) x (ids @ ys) = ids @ insert_by (compareFields lc) x ys"
  by (induction ids) (simp_all add: compareFields_def)

lemma sortedFields_split:
  "sortedFields lc fs =
     filter (\<lambda>f. f_apiName f = ''Name'') fs @ filter (\<lambda>f. f_apiName f = ''Id'') fs
       @ array_sort (compareFields lc) (filter plain fs)"
proof (induction fs)
  case Nil
  show ?case by (simp add: sortedFields_def array_sort_def)
next
  case (Cons x fs)
  let ?N = "filter (\<lambda>f. f_apiName f = ''Name'') fs"
  let ?I = "filter (\<lambda>f. f_apiName f = ''Id'') fs"
  let ?R = "array_sort (compareFields lc) (filter plain fs)"
  have step: "sortedFields lc (x # fs) = insert_by (compareFields lc) x (?N @ ?I @ ?R)"
    using Cons.IH by (simp add: sortedFields_def array_sort_def)
  have Rplain: "\<forall>z\<in>set ?R. f_apiName z \<noteq> ''Name''"
    using array_sort_mset[of "compareFields lc" "filter plain fs", THEN mset_eq_setD]
    by (auto simp: plain_def)
  consider (name) "f_apiName x = ''Name''"
    | (id) "f_apiName x = ''Id''"
    | (other) "f_apiName x \<noteq> ''Name''" "f_apiName x \<noteq> ''Id''"
    by blast
  then show ?case
  proof cases
    case name
    then have "\<not> plain x" by (simp add: plain_def)
    with name show ?thesis by (simp add: step insert_by_Name)
  next
    case id
    then have nn: "f_apiName x \<noteq> ''Name''" by simp
    have "insert_by (compareFields lc) x (?N @ ?I @ ?R) = ?N @ insert_by (compareFields lc) x (?I @ ?R)"
      by (rule insert_by_pass_Names[OF nn]) simp
    also have "insert_by (compareFields lc) x (?I @ ?R) = x # ?I @ ?R"
      by (rule insert_by_Id[OF id]) (use Rplain in auto)
    finally show ?thesis using id by (simp add: step plain_def[of x])
  next
    case other
    have "insert_by (compareFields lc) x (?N @ ?I @ ?R) = ?N @ insert_by (compareFields lc) x (?I @ ?R)"
      by (rule insert_by_pass_Names[OF other(1)]) simp
    also have "insert_by (compareFields lc) x (?I @ ?R) = ?I @ insert_by (compareFields lc) x ?R"
      by (rule insert_by_pass_Ids[OF other]) simp
    finally show ?thesis using other by (simp add: step plain_def[of x] array_sort_def)
  qed
qed

lemma insert_by_cong:
  "(\<And>y. y \<in> set ys \<Longrightarrow> cmp x y = cmp' x y) \<Longrightarrow> insert_by cmp x ys = insert_by cmp' x ys"
  by (induction ys) auto

lemma array_sort_cong:
  "(\<And>x y. x \<in> set xs \<Longrightarrow> y \<in> set xs \<Longrightarrow> cmp x y = cmp' x y) \<Longrightarrow>
   array_sort cmp xs = array_sort cmp' xs"
proof (induction xs)
  case Nil
  show ?case by (simp add: array_sort_def)
next
  case (Cons x xs)
  then have IH: "array_sort cmp xs = array_sort cmp' xs" by simp
  have "set (array_sort cmp' xs) = set xs"
    using array_sort_mset[of cmp' xs, THEN mset_eq_setD] .
  then have "insert_by cmp x (array_sort cmp' xs) = insert_by cmp' x (array_sort cmp' xs)"
    using Cons.prems by (intro insert_by_cong) simp
  with IH show ?case by (simp add: array_sort_def)
qed

lemma plain_sorted_by_label:
  assumes total: "\<And>a b. lc a b \<le> 0 \<or> lc b a \<le> 0"
    and trans: "\<And>a b c. lc a b \<le> 0 \<Longrightarrow> lc b c \<le> 0 \<Longrightarrow> lc a c \<le> 0"
  shows "sorted_wrt (\<lambda>a b. lc (f_label a) (f_label b) \<le> 0)
           (array_sort (compareFields lc) (filter plain fs))"
proof -
  have "array_sort (compareFields lc) (filter plain fs)
      = array_sort (\<lambda>a b. lc (f_label a) (f_label b)) (filter plain fs)"
    by (rule array_sort_cong) (simp add: plain_def compareFields_def)
  moreover have "sorted_wrt (\<lambda>a b. lc (f_label a) (f_label b) \<le> 0)
      (array_sort (\<lambda>a b. lc (f_label a) (f_label b)) (filter plain fs))"
    by (rule array_sort_sorted) (use total trans in blast)+
  ultimately show ?thesis by simp
qed

lemma rows_loop_pairs:
  "index + length fs = n \<Longrightarrow> length cur \<le> 1 \<Longrightarrow> (cur \<noteq> [] \<longrightarrow> fs \<noteq> []) \<Longrightarrow>
   rows_loop n index fs rows cur = rows @ pairs (cur @ map field_item fs)"
proof (induction fs arbitrary: index rows cur)
  case Nil
  then show ?case by (cases cur) simp_all
next
  case (Cons f fs)
  show ?case
  proof (cases cur)
    case Nil
    show ?thesis
    proof (cases fs)
      case Nil
      with \<open>cur = []\<close> Cons.prems show ?thesis by auto
    next
      case (Cons g gs)
      with \<open>cur = []\<close> Cons.prems have "int index \<noteq> int n - 1" by auto
      moreover have "rows_loop n (index + 1) fs rows [field_item f]
            = rows @ pairs ([field_item f] @ map field_item fs)"
        using Cons.IH[of "index + 1" "[field_item f]" rows] Cons.prems \<open>fs = g # gs\<close>
        by simp
      ultimately show ?thesis using \<open>cur = []\<close> by simp
    qed
  next
    case (Cons c cs)
    with Cons.prems have cur: "cur = [c]" by simp
    have "rows_loop n (index + 1) fs (rows @ [\<lparr>layoutItems = [c, field_item f]\<rparr>]) []
          = (rows @ [\<lparr>layoutItems = [c, field_item f]\<rparr>]) @ pairs ([] @ map field_item fs)"
      using Cons.IH[of "index + 1" "[]" "rows @ [\<lparr>layoutItems = [c, field_item f]\<rparr>]"] Cons.prems
      by simp
    then show ?thesis using cur by simp
  qed
qed

lemma concat_pairs: "concat (map layoutItems (pairs xs)) = xs"
  by (induction xs rule: pairs.induct) simp_all

lemma pairs_lengths:
  "i < length (pairs xs) \<Longrightarrow>
   length (layoutItems (pairs xs ! i)) = 2 \<or>
   (i = length (pairs xs) - 1 \<and> length (layoutItems (pairs xs ! i)) = 1)"
proof (induction xs arbitrary: i rule: pairs.induct)
  case 1
  then show ?case by simp
next
  case (2 x)
  then show ?case by simp
next
  case (3 x y zs)
  show ?case
  proof (cases i)
    case 0
    then show ?thesis by simp
  next
    case (Suc j)
    with "3.prems" have "j < length (pairs zs)" by simp
    from "3.IH"[OF this] Suc \<open>j < length (pairs zs)\<close> show ?thesis by auto
  qed
qed


lemma default_rows_eq:
  "default_rows lc objectType fs = pairs (map field_item (sortedFields lc fs))"
  by (simp add: default_rows_def createDefaultLayout_def Let_def rows_loop_pairs)

text \<open>
  Claim C3.  For every field list, and every collation \<open>lc\<close> that is a consistent comparator
  (total and transitive, as \<open>localeCompare\<close> is), the sorted list is: the fields named
  \<open>Name\<close>, then the fields named \<open>Id\<close>, then all remaining fields, which are a
  rearrangement of the remaining input fields in the order of \<open>lc\<close> on their labels.  The
  rows of the default layout hold the items of the sorted fields in order, two per row,
  except that the last row holds one item when the number of fields is odd.
\<close>

theorem createDefaultLayout_order_and_rows:
  assumes total: "\<And>a b. lc a b \<le> 0 \<or> lc b a \<le> 0"
    and trans: "\<And>a b c. lc a b \<le> 0 \<Longrightarrow> lc b c \<le> 0 \<Longrightarrow> lc a c \<le> 0"
  shows "sortedFields lc fs =
           filter (\<lambda>f. f_apiName f = ''Name'') fs @ filter (\<lambda>f. f_apiName f = ''Id'') fs
             @ array_sort (compareFields lc) (filter plain fs)
       \<and> mset (array_sort (compareFields lc) (filter plain fs)) = mset (filter plain fs)
       \<and> sorted_wrt (\<lambda>a b. lc (f_label a) (f_label b) \<le> 0)
            (array_sort (compareFields lc) (filter plain fs))
       \<and> concat (map layoutItems (default_rows lc objectType fs))
            = map field_item (sortedFields lc fs)
       \<and> (\<forall>i<length (default_rows lc objectType fs).
             length (layoutItems (default_rows lc objectType fs ! i)) = 2 \<or>
             (i = length (default_rows lc objectType fs) - 1 \<and>
              length (layoutItems (default_rows lc objectType fs ! i)) = 1))"
proof (intro conjI)
  show "sortedFields lc fs =
           filter (\<lambda>f. f_apiName f = ''Name'') fs @ filter (\<lambda>f. f_apiName f = ''Id'') fs
             @ array_sort (compareFields lc) (filter plain fs)"
    by (rule sortedFields_split)
  show "mset (array_sort (compareFields lc) (filter plain fs)) = mset (filter plain fs)"
    by (rule array_sort_mset)
  show "sorted_wrt (\<lambda>a b. lc (f_label a) (f_label b) \<le> 0)
            (array_sort (compareFields lc) (filter plain fs))"
    by (rule plain_sorted_by_label) (use total trans in blast)+
  show "concat (map layoutItems (default_rows lc objectType fs))
            = map field_item (sortedFields lc fs)"
    by (simp add: default_rows_eq concat_pairs)
  show "\<forall>i<length (default_rows lc objectType fs).
             length (layoutItems (default_rows lc objectType fs ! i)) = 2 \<or>
             (i = length (default_rows lc objectType fs) - 1 \<and>
              length (layoutItems (default_rows lc objectType fs ! i)) = 1)"
    unfolding default_rows_eq using pairs_lengths by blast
qed

lemma codepoint_compare_total: "codepoint_compare a b \<le> 0 \<or> codepoint_compare b a \<le> 0"
  by (auto simp: codepoint_compare_def)

lemma codepoint_compare_trans:
  "codepoint_compare a b \<le> 0 \<Longrightarrow> codepoint_compare b c \<le> 0 \<Longrightarrow> codepoint_compare a c \<le> 0"
  by (auto simp: codepoint_compare_def split: if_splits)

lemma example_sorted:
  "map f_apiName (sortedFields codepoint_compare example_fields)
      = [''Name'', ''Id'', ''Area__c'', ''Code__c'', ''Zip__c'']"
  by (simp add: sortedFields_def array_sort_def example_fields_def mk_field_def
        compareFields_def codepoint_compare_def)

lemma example_rows:
  "map (map item_label \<circ> layoutItems) (default_rows codepoint_compare ''Account'' example_fields)
      = [[''Name'', ''Record ID''], [''Area'', ''Code''], [''Zip'']]"
  by (simp add: default_rows_def createDefaultLayout_def sortedFields_def array_sort_def
        example_fields_def mk_field_def compareFields_def codepoint_compare_def field_item_def)

text \<open>The example field list under the code-unit collation.\<close>

theorem createDefaultLayout_order_and_rows_witness:
  "map f_apiName (sortedFields codepoint_compare example_fields)
      = [''Name'', ''Id'', ''Area__c'', ''Code__c'', ''Zip__c'']
   \<and> sorted_wrt (\<lambda>a b. codepoint_compare (f_label a) (f_label b) \<le> 0)
        (array_sort (compareFields codepoint_compare) (filter plain example_fields))
   \<and> map (map item_label \<circ> layoutItems)
        (default_rows codepoint_compare ''Account'' example_fields)
      = [[''Name'', ''Record ID''], [''Area'', ''Code''], [''Zip'']]
   \<and> concat (map layoutItems (default_rows codepoint_compare ''Account'' example_fields))
        = map field_item (sortedFields codepoint_compare example_fields)"
  using createDefaultLayout_order_and_rows[of codepoint_compare example_fields "''Account''",
          OF codepoint_compare_total codepoint_compare_trans]
        example_sorted example_rows
  by simp

section \<open>Record loading: caps, failures and the fallback layout\<close>







text \<open>
  Claim C6.  When the point lookup succeeds and the combined query throws,
  \<open>fetchRecordWithRelated\<close> returns the object made of the base record and an empty
  \<open>relatedData\<close>: every key of the base record other than \<open>relatedData\<close> itself is kept.
\<close>

theorem fetchRecordWithRelated_query_fails:
  assumes "byId iUrl token obj rid = Inr baseRecord"
    and "fq iUrl token (related_query obj rid (relationshipsToQuery childRels)) = Inl e"
  shows "fetchRecordWithRelated byId fq iUrl token obj rid childRels
           = Inr \<lparr>mainRecord = baseRecord(''relatedData'' := None), relatedData = Map.empty\<rparr>"
  using assms by (simp add: fetchRecordWithRelated_def Let_def spread_with_def)


text \<open>
  The example record with a query service that throws.
\<close>

theorem fetchRecordWithRelated_query_fails_witness:
  "byId_ok ''u'' ''t'' ''Invoice__c'' ''a01'' = Inr (map_of [(''Id'', ''a01''), (''Name'', ''INV-1'')])
   \<and> query_fails ''u'' ''t''
        (related_query ''Invoice__c'' ''a01'' (relationshipsToQuery example_childRels))
       = Inl (Error ''Query Failed'')
   \<and> fetchRecordWithRelated byId_ok query_fails ''u'' ''t'' ''Invoice__c'' ''a01'' example_childRels
       = Inr \<lparr>mainRecord = (map_of [(''Id'', ''a01''), (''Name'', ''INV-1'')])(''relatedData'' := None),
              relatedData = Map.empty\<rparr>"
  using fetchRecordWithRelated_query_fails[of byId_ok "''u''" "''t''" "''Invoice__c''" "''a01''"
          "map_of [(''Id'', ''a01''), (''Name'', ''INV-1'')]" query_fails example_childRels
          "Error ''Query Failed''"]
  by (simp add: byId_ok_def query_fails_def)

text \<open>
  Claim C4.  When the describe call and the record fetch succeed and the layout call throws
  or returns no layout, record loading ends in a state without error that shows the record,
  holds the default layout built from the described fields as its only layout, and has
  selected the id \<open>system-default\<close>.  Record loading returns a state on every path, so
  nothing reaches its caller as an exception.
\<close>

theorem loadRecordAndMetadata_layout_fallback:
  assumes "fetchObjectDetails (instanceUrl om) (accessToken om) objectType = Inr objDetails"
    and "fetchRecordWithRelated fetchRecordById fetchQuery (instanceUrl om) (accessToken om)
           objectType recordId (od_childRelationships objDetails) = Inr recordResult"
    and "layoutService (instanceUrl om) (accessToken om) objectType = Inl e \<or>
         layoutService (instanceUrl om) (accessToken om) objectType = Inr []"
  shows "loadRecordAndMetadata lc fetchObjectDetails fetchRecordById fetchQuery layoutService
           om objectType recordId st0
         = st0\<lparr>st_data := Some (mainRecord recordResult),
               st_relatedData := Some (relatedData recordResult),
               st_layouts := [createDefaultLayout lc objectType (od_fields objDetails)],
               st_selectedLayoutId := ''system-default'',
               st_loading := False, st_layoutLoading := False, st_error := None\<rparr>
       \<and> layout_id (createDefaultLayout lc objectType (od_fields objDetails)) = ''system-default''"
  using assms
  by (auto simp: loadRecordAndMetadata_def Let_def use_default_layout_def createDefaultLayout_def)

text \<open>
  The service's own \<open>fetchObjectLayouts\<close> over a network that is down.
\<close>

theorem loadRecordAndMetadata_layout_fallback_witness:
  "describe_ok (instanceUrl example_org) (accessToken example_org) ''Invoice__c''
     = Inr \<lparr>od_fields = example_fields, od_childRelationships = example_childRels,
            od_recordCount = 1\<rparr>
   \<and> (\<lambda>a b c. Inr (fetchObjectLayouts http_down a b c))
        (instanceUrl example_org) (accessToken example_org) ''Invoice__c'' = Inr []
   \<and> st_layouts (loadRecordAndMetadata codepoint_compare describe_ok byId_ok query_fails
        (\<lambda>a b c. Inr (fetchObjectLayouts http_down a b c))
        example_org ''Invoice__c'' ''a01'' initial_modal_state)
       = [createDefaultLayout codepoint_compare ''Invoice__c'' example_fields]
   \<and> st_selectedLayoutId (loadRecordAndMetadata codepoint_compare describe_ok byId_ok query_fails
        (\<lambda>a b c. Inr (fetchObjectLayouts http_down a b c))
        example_org ''Invoice__c'' ''a01'' initial_modal_state) = ''system-default''
   \<and> st_error (loadRecordAndMetadata codepoint_compare describe_ok byId_ok query_fails
        (\<lambda>a b c. Inr (fetchObjectLayouts http_down a b c))
        example_org ''Invoice__c'' ''a01'' initial_modal_state) = None"
proof -
  have d: "describe_ok (instanceUrl example_org) (accessToken example_org) ''Invoice__c''
     = Inr \<lparr>od_fields = example_fields, od_childRelationships = example_childRels,
            od_recordCount = 1\<rparr>"
    by (simp add: describe_ok_def)
  have r: "fetchRecordWithRelated byId_ok query_fails (instanceUrl example_org)
        (accessToken example_org) ''Invoice__c'' ''a01''
        (od_childRelationships \<lparr>od_fields = example_fields,
            od_childRelationships = example_childRels, od_recordCount = 1\<rparr>)
      = Inr \<lparr>mainRecord = (map_of [(''Id'', ''a01''), (''Name'', ''INV-1'')])(''relatedData'' := None),
             relatedData = Map.empty\<rparr>"
    by (simp add: fetchRecordWithRelated_def byId_ok_def query_fails_def spread_with_def Let_def)
  have l: "(\<lambda>a b c. Inr (fetchObjectLayouts http_down a b c))
        (instanceUrl example_org) (accessToken example_org) ''Invoice__c'' = Inl e \<or>
      (\<lambda>a b c. Inr (fetchObjectLayouts http_down a b c))
        (instanceUrl example_org) (accessToken example_org) ''Invoice__c'' = Inr []" for e
    by (simp add: fetchObjectLayouts_def http_down_def)
  from loadRecordAndMetadata_layout_fallback[of describe_ok example_org "''Invoice__c''" _
         byId_ok query_fails "''a01''" _ "\<lambda>a b c. Inr (fetchObjectLayouts http_down a b c)"
         "Error []" codepoint_compare initial_modal_state, OF d r l]
  show ?thesis using d l[of "Error []"] by simp
qed

text \<open>
  Claim C8, as amended.  The default layout has the id \<open>system-default\<close> and exactly one
  section, with \<open>useHeading\<close> true, whose heading is the object type name handed to
  \<open>createDefaultLayout\<close> followed by \<open>Details\<close>.  Record loading hands it the type name
  of the record (the API name), not the label of the object.
\<close>

theorem createDefaultLayout_single_section:
  "layout_id (createDefaultLayout lc objectType fs) = ''system-default''
   \<and> detailLayoutSections (createDefaultLayout lc objectType fs)
       = [\<lparr>heading = objectType @ '' Details'', useHeading = True,
           layoutRows = default_rows lc objectType fs, columns = Some 2, detailHeading = None\<rparr>]"
  by (simp add: createDefaultLayout_def default_rows_def Let_def)

text \<open>
  Claim C8 as stated fails for an object whose label differs from its API name: for the
  object \<open>Invoice__c\<close> labelled \<open>Invoice\<close>, the heading is \<open>Invoice__c Details\<close>.
\<close>

theorem default_heading_uses_api_name:
  "org_objects example_org = [invoice_object]
   \<and> map heading (concat (map detailLayoutSections (st_layouts
        (loadRecordAndMetadata codepoint_compare describe_ok byId_ok query_fails
           (\<lambda>a b c. Inr []) example_org (obj_apiName invoice_object) ''a01''
           initial_modal_state))))
       = [''Invoice__c Details'']
   \<and> ''Invoice__c Details'' \<noteq> obj_label invoice_object @ '' Details''"
  by (simp add: loadRecordAndMetadata_def describe_ok_def invoice_object_def example_org_def
        fetchRecordWithRelated_def byId_ok_def query_fails_def Let_def use_default_layout_def
        createDefaultLayout_def initial_modal_state_def)

section \<open>Graph construction and layout\<close>















text \<open>
  Claim C2, as amended.  In process mode neither builder checks the endpoints of an edge.
  Whenever the layout returns, the output of \<open>handleGenerate\<close> and of \<open>regenerateGraph\<close>
  holds exactly one edge per supplied edge, in order and with the same source and target,
  so no edge is dropped.  When the layout throws, \<open>handleGenerate\<close> leaves the earlier nodes
  and edges in place, and \<open>regenerateGraph\<close> throws; \<open>regenerateGraph\<close> also throws on a
  diagram that has no edge list.
\<close>

theorem process_mode_keeps_every_edge:
  "(layout (dagreGraph_DiagramEditor (map newNode rawNodes) (map newEdge rawEdges)) = Inr pos \<longrightarrow>
      snd (handleGenerate_graph layout
             (Some \<lparr>rd_nodes = Some rawNodes, rd_edges = Some rawEdges\<rparr>) st)
        = map newEdge rawEdges
      \<and> map (\<lambda>e. (edge_source e, edge_target e)) (map newEdge rawEdges)
        = map (\<lambda>e. (re_source e, re_target e)) rawEdges)
   \<and> (layout (dagreGraph_DiagramEditor (map newNode rawNodes) (map newEdge rawEdges)) = Inl e \<longrightarrow>
      handleGenerate_graph layout
        (Some \<lparr>rd_nodes = Some rawNodes, rd_edges = Some rawEdges\<rparr>) st = st)
   \<and> (pd_edges diagramData = Some diagramEdges \<longrightarrow>
      layoutB (dagreGraph_AutoDiagram (flowNodes diagramData)
                 (flowEdges diagramEdges currentStyle) None) = Inr posB \<longrightarrow>
      (case regenerateGraph layoutB (Some diagramData) currentStyle stB of
         Inl err \<Rightarrow> False
       | Inr g \<Rightarrow> snd g = flowEdges diagramEdges currentStyle)
      \<and> map (\<lambda>e. (edge_id e, edge_source e, edge_target e, edge_label e))
           (flowEdges diagramEdges currentStyle)
        = map (\<lambda>e. (de_id e, de_source e, de_target e, de_label e)) diagramEdges)
   \<and> (pd_edges diagramData = Some diagramEdges \<longrightarrow>
      layoutB (dagreGraph_AutoDiagram (flowNodes diagramData)
                 (flowEdges diagramEdges currentStyle) None) = Inl errB \<longrightarrow>
      regenerateGraph layoutB (Some diagramData) currentStyle stB = Inl errB)
   \<and> (pd_edges diagramData = None \<longrightarrow>
      (case regenerateGraph layoutB (Some diagramData) currentStyle stB of
         Inl err \<Rightarrow> True
       | Inr g \<Rightarrow> False))"
  by (simp add: handleGenerate_graph_def getLayoutedElements_DiagramEditor_def
        newEdge_def regenerateGraph_def getLayoutedElements_AutoDiagram_def flowEdges_def
        comp_def)

text \<open>
  Two steps joined by an edge: the layout returns and the edge is in the output.  A node
  with an empty id: the layout throws and the editor keeps its initial diagram.  A process
  diagram without an edge list: \<open>regenerateGraph\<close> throws.
\<close>

theorem process_mode_keeps_every_edge_witness:
  "stack_run (dagreGraph_DiagramEditor (map newNode two_step_nodes) (map newEdge two_step_edges))
     = Inr (stack_layout (dagreGraph_DiagramEditor (map newNode two_step_nodes)
                            (map newEdge two_step_edges)))
   \<and> map (\<lambda>e. (edge_id e, edge_source e, edge_target e))
        (snd (handleGenerate_graph stack_run
           (Some \<lparr>rd_nodes = Some two_step_nodes, rd_edges = Some two_step_edges\<rparr>) ([], [])))
       = [(''e-n1-n2'', ''n1'', ''n2'')]
   \<and> stack_run (dagreGraph_DiagramEditor (map newNode empty_id_nodes) (map newEdge []))
       = Inl (Error ''TypeError'')
   \<and> handleGenerate_graph stack_run
        (Some \<lparr>rd_nodes = Some empty_id_nodes, rd_edges = Some []\<rparr>)
        (editor_initialNodes, editor_initialEdges)
       = (editor_initialNodes, editor_initialEdges)
   \<and> pd_edges edgeless_diagram = None
   \<and> (case regenerateGraph stack_run (Some edgeless_diagram) corporate ([], []) of
         Inl err \<Rightarrow> True
       | Inr g \<Rightarrow> False)"
proof -
  have ok: "stack_run (dagreGraph_DiagramEditor (map newNode two_step_nodes)
                         (map newEdge two_step_edges))
     = Inr (stack_layout (dagreGraph_DiagramEditor (map newNode two_step_nodes)
                            (map newEdge two_step_edges)))"
    by (simp add: stack_run_def dagreGraph_DiagramEditor_def two_step_nodes_def newNode_def)
  have bad: "stack_run (dagreGraph_DiagramEditor (map newNode empty_id_nodes) (map newEdge []))
       = Inl (Error ''TypeError'')"
    by (simp add: stack_run_def dagreGraph_DiagramEditor_def empty_id_nodes_def newNode_def)
  have none: "pd_edges edgeless_diagram = None"
    by (simp add: edgeless_diagram_def)
  have ids: "map (\<lambda>e. (edge_id e, edge_source e, edge_target e)) (map newEdge two_step_edges)
       = [(''e-n1-n2'', ''n1'', ''n2'')]"
    by (simp add: two_step_edges_def newEdge_def or_else_def)
  note t1 = process_mode_keeps_every_edge[where layout = stack_run
              and rawNodes = two_step_nodes and rawEdges = two_step_edges
              and st = "([], [])"]
  note t2 = process_mode_keeps_every_edge[where layout = stack_run
              and rawNodes = empty_id_nodes and rawEdges = "[]"
              and st = "(editor_initialNodes, editor_initialEdges)"
              and e = "Error ''TypeError''"
              and layoutB = stack_run and diagramData = edgeless_diagram
              and currentStyle = corporate and stB = "([], [])"]
  from t1 ok have "snd (handleGenerate_graph stack_run
           (Some \<lparr>rd_nodes = Some two_step_nodes, rd_edges = Some two_step_edges\<rparr>) ([], []))
        = map newEdge two_step_edges"
    by blast
  moreover from t2 bad have "handleGenerate_graph stack_run
        (Some \<lparr>rd_nodes = Some empty_id_nodes, rd_edges = Some []\<rparr>)
        (editor_initialNodes, editor_initialEdges)
       = (editor_initialNodes, editor_initialEdges)"
    by blast
  moreover from t2 none
  have "case regenerateGraph stack_run (Some edgeless_diagram) corporate ([], []) of
         Inl err \<Rightarrow> True
       | Inr g \<Rightarrow> False"
    by blast
  ultimately show ?thesis using ok bad none ids by simp
qed

text \<open>
  Claim C2 as stated fails: with the one node \<open>a\<close> and the edge from \<open>a\<close> to the absent
  node \<open>x\<close>, the layout returns and the output of both builders still holds the edge to
  \<open>x\<close>.
\<close>

theorem dangling_edge_is_kept:
  "map node_id (fst (handleGenerate_graph stack_run (Some dangling_raw) ([], []))) = [''a'']
   \<and> map (\<lambda>e. (edge_source e, edge_target e))
        (snd (handleGenerate_graph stack_run (Some dangling_raw) ([], []))) = [(''a'', ''x'')]
   \<and> (case regenerateGraph stack_run (Some dangling_diagram) corporate ([], []) of
         Inl err \<Rightarrow> []
       | Inr g \<Rightarrow> map fn_id (fst g)) = [''a'']
   \<and> (case regenerateGraph stack_run (Some dangling_diagram) corporate ([], []) of
         Inl err \<Rightarrow> []
       | Inr g \<Rightarrow> map (\<lambda>e. (edge_source e, edge_target e)) (snd g)) = [(''a'', ''x'')]"
  by (simp add: handleGenerate_graph_def getLayoutedElements_DiagramEditor_def
        dagreGraph_DiagramEditor_def newEdge_def newNode_def regenerateGraph_def
        getLayoutedElements_AutoDiagram_def dagreGraph_AutoDiagram_def flowEdges_def
        flowNodes_def dangling_raw_def dangling_diagram_def stack_run_def stack_layout_def
        or_else_def)

end
